theory Spec2Isabelle
  imports Main
begin

section \<open>The slide-out panel of \<^verbatim>\<open>assets/js/main.js\<close>\<close>

text \<open>
  The development embeds \<^verbatim>\<open>$.fn.panel\<close> (lines 612-887 of
  \<^verbatim>\<open>assets/js/main.js\<close>) with its helpers \<^verbatim>\<open>isStringNotEmpty\<close>,
  \<^verbatim>\<open>isValidHrefForPanelClick\<close> and \<^verbatim>\<open>evaluateSwipe\<close>. Every event handler
  the plugin binds is a function on an explicit state; the state holds what the handlers
  read and write: the class tokens of \<^verbatim>\<open>config.target\<close>, the two expando properties
  \<^verbatim>\<open>$element.touchPosX/touchPosY\<close>, the scroll geometry of the panel element, its
  forms, the pending \<^verbatim>\<open>setTimeout\<close> callbacks, and the effects of navigation.

  Modelling decisions:
  \<^item> Pixel quantities are integers. The only non-finite number the handlers can produce
    is \<^verbatim>\<open>NaN\<close> (from \<^verbatim>\<open>undefined - n\<close>); it is a value of its own.
  \<^item> \<^verbatim>\<open>config.target\<close> is one element, and \<^verbatim>\<open>config.visibleClass\<close> is one class
    token; the class attribute is the list of its tokens.
  \<^item> The class, attribute and scroll operations of the DOM library do not throw on a
    wrapped element, so the \<^verbatim>\<open>catch\<close> blocks around them are dead and are left out.
    The two exceptions that can be raised are modelled: a \<^verbatim>\<open>touchmove\<close> event with
    no first touch point, and a form whose \<^verbatim>\<open>reset\<close> is not callable.
\<close>

subsection \<open>JavaScript values\<close>

text \<open>An expando property of \<^verbatim>\<open>$element\<close>: never assigned, \<^verbatim>\<open>null\<close>, or a number.\<close>

datatype jsval = Undefined | Null | Num int

text \<open>The result of an arithmetic operation.\<close>

datatype jsnum = NaN | Fin int

text \<open>\<^verbatim>\<open>v - n\<close> for a number \<^verbatim>\<open>n\<close>: \<^verbatim>\<open>undefined\<close> converts to \<^verbatim>\<open>NaN\<close>, \<^verbatim>\<open>null\<close> to 0.\<close>

fun js_minus :: "jsval \<Rightarrow> int \<Rightarrow> jsnum" where
  "js_minus Undefined n = NaN"
| "js_minus Null n = Fin (0 - n)"
| "js_minus (Num a) n = Fin (a - n)"

text \<open>\<^verbatim>\<open>a < n\<close> and \<^verbatim>\<open>a > n\<close>: every comparison with \<^verbatim>\<open>NaN\<close> is false.\<close>

fun js_less :: "jsnum \<Rightarrow> int \<Rightarrow> bool" where
  "js_less NaN n = False"
| "js_less (Fin a) n = (a < n)"

fun js_greater :: "jsnum \<Rightarrow> int \<Rightarrow> bool" where
  "js_greater NaN n = False"
| "js_greater (Fin a) n = (a > n)"

subsection \<open>Helpers\<close>

text \<open>
  \<^verbatim>\<open>UtilHelpers.isStringNotEmpty\<close> (line 448), on the values \<^verbatim>\<open>safeAttr\<close> returns: an
  attribute is a string or \<^verbatim>\<open>undefined\<close> (\<open>None\<close>).
\<close>

fun isStringNotEmpty :: "string option \<Rightarrow> bool" where
  "isStringNotEmpty None = False"
| "isStringNotEmpty (Some v) = (length v > 0)"

text \<open>
  \<^verbatim>\<open>isValidHrefForPanelClick\<close> (line 856). The test \<^verbatim>\<open>panelId && ...\<close> is the
  truthiness of the id: a string that is not empty.
\<close>

definition isValidHrefForPanelClick :: "string option \<Rightarrow> string option \<Rightarrow> bool" where
  "isValidHrefForPanelClick href panelId =
     (if \<not> isStringNotEmpty href then False
      else if href = Some ''#'' then False
      else if (case panelId of
                 None \<Rightarrow> False
               | Some p \<Rightarrow> p \<noteq> [] \<and> href = Some (''#'' @ p)) then False
      else True)"

text \<open>
  \<^verbatim>\<open>evaluateSwipe\<close> (line 871). \<^verbatim>\<open>side\<close> is a string or \<^verbatim>\<open>null\<close> (\<open>None\<close>); the
  \<^verbatim>\<open>switch\<close> compares with strict equality.
\<close>

definition evaluateSwipe :: "string option \<Rightarrow> jsnum \<Rightarrow> jsnum \<Rightarrow> bool" where
  "evaluateSwipe side diffX diffY =
     (let boundary = 20; delta = 50 in
      if side = Some ''left'' then
        (js_less diffY boundary \<and> js_greater diffY (-1 * boundary)) \<and> js_greater diffX delta
      else if side = Some ''right'' then
        (js_less diffY boundary \<and> js_greater diffY (-1 * boundary)) \<and> js_less diffX (-1 * delta)
      else if side = Some ''top'' then
        (js_less diffX boundary \<and> js_greater diffX (-1 * boundary)) \<and> js_greater diffY delta
      else if side = Some ''bottom'' then
        (js_less diffX boundary \<and> js_greater diffX (-1 * boundary)) \<and> js_less diffY (-1 * delta)
      else False)"

subsection \<open>Class tokens\<close>

text \<open>
  \<^verbatim>\<open>hasClass\<close>, \<^verbatim>\<open>removeClass\<close>, \<^verbatim>\<open>addClass\<close> and \<^verbatim>\<open>toggleClass\<close> of the DOM
  library, for one class token on one element: removal deletes every occurrence of the
  token, addition appends it when it is absent, toggling removes it when present and adds
  it otherwise.
\<close>

definition hasClass :: "string \<Rightarrow> string list \<Rightarrow> bool" where
  "hasClass c cs = (c \<in> set cs)"

definition removeClass :: "string \<Rightarrow> string list \<Rightarrow> string list" where
  "removeClass c cs = filter (\<lambda>x. x \<noteq> c) cs"

definition addClass :: "string \<Rightarrow> string list \<Rightarrow> string list" where
  "addClass c cs = (if hasClass c cs then cs else cs @ [c])"

definition toggleClass :: "string \<Rightarrow> string list \<Rightarrow> string list" where
  "toggleClass c cs = (if hasClass c cs then removeClass c cs else addClass c cs)"

subsection \<open>Configuration, state and events\<close>

text \<open>
  The merged configuration (lines 633-648), without \<^verbatim>\<open>target\<close>: the target element is
  represented in the state by its class tokens.
\<close>

record panel_config =
  delay :: nat
  hideOnClick :: bool
  hideOnEscape :: bool
  hideOnSwipe :: bool
  resetScroll :: bool
  resetForms :: bool
  side :: "string option"
  visibleClass :: string

text \<open>
  A form: the current and the default values of its controls, and whether
  \<^verbatim>\<open>this.reset\<close> is callable (a control named \<^verbatim>\<open>reset\<close> shadows the method, and
  the call raises \<^verbatim>\<open>TypeError\<close>).
\<close>

record form =
  fieldValues :: "string list"
  fieldDefaults :: "string list"
  resetCallable :: bool

datatype js_error = TypeError

text \<open>
  The two callbacks the plugin hands to \<^verbatim>\<open>window.setTimeout\<close>: the post-hide
  clean-up (line 675) and the redirect (line 733), which has captured \<^verbatim>\<open>targetVal\<close>
  and \<^verbatim>\<open>hrefVal\<close>.
\<close>

datatype timer_action = PostHide | Redirect "string option" string

record panel_state =
  targetClasses :: "string list"
  touchPosX :: jsval
  touchPosY :: jsval
  scrollTop :: int
  scrollHeight :: int
  outerHeight :: int
  forms :: "form list"
  clock :: nat
  timers :: "(nat \<times> timer_action) list"
  location :: string
  openedWindows :: "string list"
  console :: "string list"

text \<open>
  An event object: the two flags the handlers set, and
  \<^verbatim>\<open>originalEvent.touches\<close> as the list of (\<^verbatim>\<open>pageX\<close>, \<^verbatim>\<open>pageY\<close>) pairs
  (\<open>None\<close> when the event has no such property).
\<close>

record dom_event =
  defaultPrevented :: bool
  propagationStopped :: bool
  touches :: "(int \<times> int) list option"

definition new_event :: "(int \<times> int) list option \<Rightarrow> dom_event" where
  "new_event ts = \<lparr>defaultPrevented = False, propagationStopped = False, touches = ts\<rparr>"

text \<open>\<^verbatim>\<open>event.preventDefault(); event.stopPropagation();\<close>\<close>

definition cancel_event :: "dom_event \<Rightarrow> dom_event" where
  "cancel_event ev = ev\<lparr>defaultPrevented := True, propagationStopped := True\<rparr>"

text \<open>\<^verbatim>\<open>touches[0]\<close>: \<open>None\<close> when the property or its first element is missing.\<close>

fun first_touch :: "dom_event \<Rightarrow> (int \<times> int) option" where
  "first_touch ev = (case touches ev of
       None \<Rightarrow> None
     | Some [] \<Rightarrow> None
     | Some (t # ts) \<Rightarrow> Some t)"

subsection \<open>Timers\<close>

text \<open>
  \<^verbatim>\<open>window.setTimeout(f, d)\<close> queues the callback with the time it becomes due.
\<close>

definition setTimeout :: "timer_action \<Rightarrow> nat \<Rightarrow> panel_state \<Rightarrow> panel_state" where
  "setTimeout f d s = s\<lparr>timers := timers s @ [(clock s + d, f)]\<rparr>"

text \<open>\<^verbatim>\<open>this.reset()\<close> on one form.\<close>

definition form_reset :: "form \<Rightarrow> js_error + form" where
  "form_reset f =
     (if resetCallable f then Inr (f\<lparr>fieldValues := fieldDefaults f\<rparr>) else Inl TypeError)"

text \<open>
  \<^verbatim>\<open>$element.find('form').each(function() { try { this.reset(); } catch ... })\<close>
  (lines 684-690): the loop over the forms, with the \<^verbatim>\<open>try\<close> inside its body. It
  returns the forms and the warnings logged.
\<close>

fun reset_each :: "form list \<Rightarrow> form list \<times> string list" where
  "reset_each [] = ([], [])"
| "reset_each (f # fs) =
     (case form_reset f of
        Inl err \<Rightarrow>
          (let (fs', ws) = reset_each fs in (f # fs', ''panel._hide: form reset failed'' # ws))
      | Inr f' \<Rightarrow>
          (let (fs', ws) = reset_each fs in (f' # fs', ws)))"

text \<open>The callback of lines 675-695.\<close>

definition post_hide :: "panel_config \<Rightarrow> panel_state \<Rightarrow> panel_state" where
  "post_hide cfg s =
     (let s1 = (if resetScroll cfg then s\<lparr>scrollTop := 0\<rparr> else s) in
      if resetForms cfg then
        (let (fs, ws) = reset_each (forms s1) in s1\<lparr>forms := fs, console := console s1 @ ws\<rparr>)
      else s1)"

text \<open>Running a callback; the redirect is lines 734-739.\<close>

fun run_action :: "panel_config \<Rightarrow> timer_action \<Rightarrow> panel_state \<Rightarrow> panel_state" where
  "run_action cfg PostHide s = post_hide cfg s"
| "run_action cfg (Redirect targetVal hrefVal) s =
     (if targetVal = Some ''_blank'' then s\<lparr>openedWindows := openedWindows s @ [hrefVal]\<rparr>
      else s\<lparr>location := hrefVal\<rparr>)"

text \<open>
  The passing of \<open>dt\<close> milliseconds with no event: the callbacks that are due run in
  the order of their due times (callbacks due at the same time in the order they were
  queued), and leave the queue. No callback of the plugin queues another one.
\<close>

definition advance :: "panel_config \<Rightarrow> nat \<Rightarrow> panel_state \<Rightarrow> panel_state" where
  "advance cfg dt s =
     (let t = clock s + dt;
          due = filter (\<lambda>(d, f). d \<le> t) (timers s);
          rest = filter (\<lambda>(d, f). \<not> d \<le> t) (timers s)
      in fold (\<lambda>(d, f). run_action cfg f) (sort_key fst due) (s\<lparr>clock := t, timers := rest\<rparr>))"

subsection \<open>The handlers\<close>

text \<open>
  \<^verbatim>\<open>$element._hide(event)\<close> (lines 651-696). The event is optional; the handler
  returns the state and the event it may have cancelled.
\<close>

definition hide :: "panel_config \<Rightarrow> dom_event option \<Rightarrow> panel_state
    \<Rightarrow> panel_state \<times> dom_event option" where
  "hide cfg event s =
     (if \<not> hasClass (visibleClass cfg) (targetClasses s) then (s, event)
      else
        (let event' = map_option cancel_event event;
             s1 = s\<lparr>targetClasses := removeClass (visibleClass cfg) (targetClasses s)\<rparr>
         in (setTimeout PostHide (delay cfg) s1, event')))"

text \<open>An anchor: its \<^verbatim>\<open>href\<close> and \<^verbatim>\<open>target\<close> attributes.\<close>

record anchor =
  anchorHref :: "string option"
  anchorTarget :: "string option"

text \<open>
  The delegated click handler for the anchors of the panel (lines 713-741), bound when
  \<^verbatim>\<open>hideOnClick\<close> is set. The redirect callback is only created for a valid href,
  which is a string.
\<close>

definition link_click :: "panel_config \<Rightarrow> string option \<Rightarrow> anchor \<Rightarrow> dom_event
    \<Rightarrow> panel_state \<Rightarrow> panel_state \<times> dom_event" where
  "link_click cfg panelId a ev s =
     (case anchorHref a of
        None \<Rightarrow> (s, ev)
      | Some hrefVal \<Rightarrow>
          if \<not> isValidHrefForPanelClick (Some hrefVal) panelId then (s, ev)
          else
            (let ev' = cancel_event ev;
                 s1 = fst (hide cfg None s)
             in (setTimeout (Redirect (anchorTarget a) hrefVal) (delay cfg + 10) s1, ev')))"

text \<open>The \<^verbatim>\<open>touchstart\<close> handler (lines 745-754).\<close>

definition on_touchstart :: "dom_event \<Rightarrow> panel_state \<Rightarrow> panel_state" where
  "on_touchstart ev s =
     (case first_touch ev of
        None \<Rightarrow> s
      | Some (pageX, pageY) \<Rightarrow> s\<lparr>touchPosX := Num pageX, touchPosY := Num pageY\<rparr>)"

text \<open>
  The \<^verbatim>\<open>touchmove\<close> handler (lines 757-790). The third component of the result tells
  whether the handler returned \<^verbatim>\<open>false\<close>.
\<close>

definition on_touchmove :: "panel_config \<Rightarrow> dom_event \<Rightarrow> panel_state
    \<Rightarrow> panel_state \<times> dom_event \<times> bool" where
  "on_touchmove cfg ev s =
     (if touchPosX s = Null \<or> touchPosY s = Null then (s, ev, False)
      else
        (case first_touch ev of
           None \<Rightarrow> (s\<lparr>console := console s @ [''panel: touchmove handler error'']\<rparr>, ev, False)
         | Some (pageX, pageY) \<Rightarrow>
             (let diffX = js_minus (touchPosX s) pageX;
                  diffY = js_minus (touchPosY s) pageY;
                  elementHeight = outerHeight s;
                  scrollDistance = scrollHeight s - scrollTop s
              in
                if hideOnSwipe cfg \<and> evaluateSwipe (side cfg) diffX diffY then
                  (fst (hide cfg None (s\<lparr>touchPosX := Null, touchPosY := Null\<rparr>)), ev, True)
                else if (scrollTop s < 0 \<and> js_less diffY 0)
                      \<or> (scrollDistance > elementHeight - 2
                          \<and> scrollDistance < elementHeight + 2 \<and> js_greater diffY 0)
                then (s, cancel_event ev, False)
                else (s, ev, False))))"

text \<open>
  The handler bound to \<^verbatim>\<open>click touchend touchstart touchmove\<close> on the panel element
  (lines 793-799).
\<close>

definition stop_bubbling :: "dom_event \<Rightarrow> dom_event" where
  "stop_bubbling ev = ev\<lparr>propagationStopped := True\<rparr>"

text \<open>
  The delegated handler of the panel element for its own anchors
  \<^verbatim>\<open>a[href="#id"]\<close> (lines 803-811).
\<close>

definition self_anchor_click :: "panel_config \<Rightarrow> dom_event \<Rightarrow> panel_state
    \<Rightarrow> panel_state \<times> dom_event" where
  "self_anchor_click cfg ev s =
     (s\<lparr>targetClasses := removeClass (visibleClass cfg) (targetClasses s)\<rparr>, cancel_event ev)"

text \<open>The \<^verbatim>\<open>click touchend\<close> handler of the body (lines 815-817).\<close>

definition body_click :: "panel_config \<Rightarrow> dom_event \<Rightarrow> panel_state
    \<Rightarrow> panel_state \<times> dom_event" where
  "body_click cfg ev s =
     (case hide cfg (Some ev) s of
        (s', Some ev') \<Rightarrow> (s', ev')
      | (s', None) \<Rightarrow> (s', ev))"

text \<open>
  The delegated handler of the body for the anchors \<^verbatim>\<open>a[href="#id"]\<close>
  (lines 821-829).
\<close>

definition body_toggle_click :: "panel_config \<Rightarrow> dom_event \<Rightarrow> panel_state
    \<Rightarrow> panel_state \<times> dom_event" where
  "body_toggle_click cfg ev s =
     (s\<lparr>targetClasses := toggleClass (visibleClass cfg) (targetClasses s)\<rparr>, cancel_event ev)"

subsection \<open>Delivery of events\<close>

text \<open>
  A handler that returns \<^verbatim>\<open>false\<close> has the event's default prevented and its
  propagation stopped by the library.
\<close>

definition returned :: "panel_state \<times> dom_event \<times> bool \<Rightarrow> panel_state \<times> dom_event" where
  "returned r = (case r of (s, ev, ret_false) \<Rightarrow> (s, if ret_false then cancel_event ev else ev))"

text \<open>
  A touch event whose target lies in the panel element. The handlers of the element run
  in the order they were bound; all of them stop the propagation, so that the handlers
  of the body do not see the event.
\<close>

datatype touch_event = TouchStart "(int \<times> int) list" | TouchMove "(int \<times> int) list" | TouchEnd

fun panel_touch :: "panel_config \<Rightarrow> touch_event \<Rightarrow> panel_state \<Rightarrow> panel_state \<times> dom_event" where
  "panel_touch cfg (TouchStart ts) s =
     (let ev = new_event (Some ts) in (on_touchstart ev s, stop_bubbling ev))"
| "panel_touch cfg (TouchMove ts) s =
     (let (s', ev') = returned (on_touchmove cfg (new_event (Some ts)) s)
      in (s', stop_bubbling ev'))"
| "panel_touch cfg TouchEnd s = (s, stop_bubbling (new_event (Some [])))"

text \<open>A sequence of touch events on the panel element.\<close>

fun panel_touches :: "panel_config \<Rightarrow> touch_event list \<Rightarrow> panel_state \<Rightarrow> panel_state" where
  "panel_touches cfg [] s = s"
| "panel_touches cfg (e # es) s = panel_touches cfg es (fst (panel_touch cfg e s))"

text \<open>
  Whether a \<^verbatim>\<open>touchmove\<close> at \<open>(pageX, pageY)\<close> is taken for a swipe in state
  \<open>s\<close>: the condition of lines 767-769.
\<close>

definition swipe_recognized :: "panel_config \<Rightarrow> panel_state \<Rightarrow> int \<times> int \<Rightarrow> bool" where
  "swipe_recognized cfg s p =
     (hideOnSwipe cfg \<and>
      evaluateSwipe (side cfg) (js_minus (touchPosX s) (fst p)) (js_minus (touchPosY s) (snd p)))"

text \<open>
  A click on an anchor. The selector the plugin builds at lines 803 and 821 is the text
  \<^verbatim>\<open>a[href="#\<close>, the id, and \<^verbatim>\<open>"]\<close>, with nothing escaped. For an id that
  holds no double quote, no backslash and no control character, the text between the
  quotes denotes \<^verbatim>\<open>#\<close> followed by the id, and the selector matches the anchors
  whose \<^verbatim>\<open>href\<close> attribute is that string. What the selector engine of the DOM
  library makes of the selector for any other id (a syntax error, or a selector that
  means something else) is not decided by the plugin: it is the parameter \<open>engine\<close>,
  which gives \<open>None\<close> for a selector the library rejects and the matching predicate
  otherwise.
\<close>

datatype place = InsidePanel | OutsidePanel

definition selector_safe :: "string \<Rightarrow> bool" where
  "selector_safe i =
     list_all (\<lambda>c. c \<noteq> CHR 0x22 \<and> c \<noteq> CHR 0x5C \<and> 32 \<le> (of_char c :: nat)) i"

definition self_selector :: "(string \<Rightarrow> (anchor \<Rightarrow> bool) option) \<Rightarrow> string
    \<Rightarrow> (anchor \<Rightarrow> bool) option" where
  "self_selector engine i =
     (if selector_safe i then Some (\<lambda>a. anchorHref a = Some (''#'' @ i)) else engine i)"

text \<open>
  The handlers that lines 801-830 bind: the delegated handler of the panel element for
  its own anchors, the click handler of the body, and the delegated toggle handler of the
  body, each delegated one with the predicate of its selector. The two delegated handlers
  are bound only when the id is a string that is not empty (lines 802 and 820). The
  library checks a delegated selector when the handler is attached and throws on one it
  rejects; line 803 is outside every \<^verbatim>\<open>try\<close>, so the plugin stops there and none of
  the three handlers is bound. The handlers bound before line 801 (the one for the links,
  the touch handlers, the one that stops the bubbling) are bound in every case.
\<close>

record bindings =
  selfAnchorBound :: "(anchor \<Rightarrow> bool) option"
  bodyClickBound :: bool
  bodyToggleBound :: "(anchor \<Rightarrow> bool) option"

definition panel_bindings :: "(string \<Rightarrow> (anchor \<Rightarrow> bool) option) \<Rightarrow> string option
    \<Rightarrow> bindings" where
  "panel_bindings engine panelId =
     (case panelId of
        None \<Rightarrow> \<lparr>selfAnchorBound = None, bodyClickBound = True, bodyToggleBound = None\<rparr>
      | Some i \<Rightarrow>
          if \<not> isStringNotEmpty (Some i)
          then \<lparr>selfAnchorBound = None, bodyClickBound = True, bodyToggleBound = None\<rparr>
          else (case self_selector engine i of
                  None \<Rightarrow>
                    \<lparr>selfAnchorBound = None, bodyClickBound = False, bodyToggleBound = None\<rparr>
                | Some m \<Rightarrow>
                    \<lparr>selfAnchorBound = Some m, bodyClickBound = True,
                     bodyToggleBound = Some m\<rparr>))"

text \<open>Whether a delegated handler is bound and its selector matches the anchor.\<close>

definition delegate_matches :: "(anchor \<Rightarrow> bool) option \<Rightarrow> anchor \<Rightarrow> bool" where
  "delegate_matches b a = (case b of None \<Rightarrow> False | Some m \<Rightarrow> m a)"

text \<open>
  The handlers of the body: the delegated handler first; the handler bound to the body
  itself runs unless the propagation was stopped.
\<close>

definition body_handlers :: "panel_config \<Rightarrow> bindings \<Rightarrow> anchor \<Rightarrow> dom_event
    \<Rightarrow> panel_state \<Rightarrow> panel_state \<times> dom_event" where
  "body_handlers cfg b a ev s =
     (let (s1, ev1) = (if delegate_matches (bodyToggleBound b) a
                       then body_toggle_click cfg ev s else (s, ev))
      in if propagationStopped ev1 \<or> \<not> bodyClickBound b then (s1, ev1)
         else body_click cfg ev1 s1)"

text \<open>
  The handlers of the panel element: the delegated handlers for the anchor in the order
  they were bound, then the handler bound to the element itself unless the propagation was
  stopped, then the handlers of the body unless the propagation was stopped.
\<close>

definition panel_handlers :: "panel_config \<Rightarrow> string option \<Rightarrow> bindings \<Rightarrow> anchor
    \<Rightarrow> dom_event \<Rightarrow> panel_state \<Rightarrow> panel_state \<times> dom_event" where
  "panel_handlers cfg panelId b a ev s =
     (let (s1, ev1) = (if hideOnClick cfg then link_click cfg panelId a ev s else (s, ev));
          (s2, ev2) = (if delegate_matches (selfAnchorBound b) a
                       then self_anchor_click cfg ev1 s1 else (s1, ev1));
          ev3 = (if propagationStopped ev2 then ev2 else stop_bubbling ev2)
      in if propagationStopped ev3 then (s2, ev3) else body_handlers cfg b a ev3 s2)"

definition click_anchor :: "panel_config \<Rightarrow> (string \<Rightarrow> (anchor \<Rightarrow> bool) option)
    \<Rightarrow> string option \<Rightarrow> place \<Rightarrow> anchor \<Rightarrow> panel_state \<Rightarrow> panel_state \<times> dom_event" where
  "click_anchor cfg engine panelId pl a s =
     (let b = panel_bindings engine panelId in
      case pl of
        InsidePanel \<Rightarrow> panel_handlers cfg panelId b a (new_event None) s
      | OutsidePanel \<Rightarrow> body_handlers cfg b a (new_event None) s)"

subsection \<open>The panel of the page\<close>

text \<open>
  The configuration \<^verbatim>\<open>createNavPanel\<close> passes to the plugin (lines 298-307), merged
  over the defaults. The id of that panel is \<^verbatim>\<open>navPanel\<close>.
\<close>

definition navPanel_config :: panel_config where
  "navPanel_config = \<lparr>delay = 500, hideOnClick = True, hideOnEscape = False, hideOnSwipe = True,
     resetScroll = True, resetForms = True, side = Some ''right'',
     visibleClass = ''is-navPanel-visible''\<rparr>"

text \<open>
  A state of that panel for the concrete instances below: the body carries the class
  tokens \<open>cs\<close>, no touch has been seen, the panel is scrolled to its top and holds two
  forms, the first of which cannot be reset.
\<close>

definition example_state :: "string list \<Rightarrow> panel_state" where
  "example_state cs = \<lparr>targetClasses = cs, touchPosX = Undefined, touchPosY = Undefined,
     scrollTop = 0, scrollHeight = 1000, outerHeight = 300,
     forms = [\<lparr>fieldValues = [''a''], fieldDefaults = [''''], resetCallable = False\<rparr>,
              \<lparr>fieldValues = [''b''], fieldDefaults = [''''], resetCallable = True\<rparr>],
     clock = 0, timers = [], location = ''/'', openedWindows = [], console = []\<rparr>"

section \<open>Properties\<close>

subsection \<open>Hiding\<close>

lemma hasClass_removeClass [simp]: "\<not> hasClass c (removeClass c cs)"
  by (simp add: hasClass_def removeClass_def)

lemma hide_fields [simp]:
  "touchPosX (fst (hide cfg e s)) = touchPosX s"
  "touchPosY (fst (hide cfg e s)) = touchPosY s"
  "forms (fst (hide cfg e s)) = forms s"
  "location (fst (hide cfg e s)) = location s"
  "openedWindows (fst (hide cfg e s)) = openedWindows s"
  "clock (fst (hide cfg e s)) = clock s"
  "scrollTop (fst (hide cfg e s)) = scrollTop s"
  by (simp_all add: hide_def setTimeout_def Let_def)

lemma hide_hidden [simp]: "\<not> hasClass (visibleClass cfg) (targetClasses (fst (hide cfg e s)))"
  by (simp add: hide_def setTimeout_def Let_def)

text \<open>
  Claim C5. For every configuration, \<^verbatim>\<open>_hide\<close> on a target that does not carry the
  visible class changes nothing: the state is the same (so no class changes, no callback
  is queued, nothing is scrolled, reset or navigated), and the event it was given is not
  cancelled.
\<close>

theorem hide_closed_noop:
  "\<not> hasClass (visibleClass cfg) (targetClasses s) \<Longrightarrow> hide cfg event s = (s, event)"
  by (simp add: hide_def)

theorem hide_closed_noop_witness:
  "\<not> hasClass (visibleClass navPanel_config) (targetClasses (example_state [''is-preload'']))
   \<and> hide navPanel_config (Some (new_event None)) (example_state [''is-preload''])
       = (example_state [''is-preload''], Some (new_event None))"
proof -
  have h: "\<not> hasClass (visibleClass navPanel_config) (targetClasses (example_state [''is-preload'']))"
    by (simp add: hasClass_def navPanel_config_def example_state_def)
  from h hide_closed_noop [OF h] show ?thesis by simp
qed

subsection \<open>Clicks on the links of the panel\<close>

lemma valid_href_iff:
  "isValidHrefForPanelClick href panelId \<longleftrightarrow>
     (\<exists>h. href = Some h \<and> h \<noteq> [] \<and> h \<noteq> ''#'' \<and> (\<forall>i. panelId = Some i \<longrightarrow> h \<noteq> ''#'' @ i))"
  by (cases href; cases panelId) (auto simp: isValidHrefForPanelClick_def)

text \<open>
  Claim C6. The click handler for the links of the panel does nothing (state and event
  are unchanged) when the anchor has no href, or its href is the empty string, \<^verbatim>\<open>#\<close>,
  or \<^verbatim>\<open>#\<close> followed by the id of the panel. For every other href it fires: the click
  is cancelled, the panel is hidden, and the redirect to that href is queued.
\<close>

theorem link_click_fires_iff:
  "(let (s', ev') = link_click cfg panelId a ev s in
     if anchorHref a = None \<or> anchorHref a = Some [] \<or> anchorHref a = Some ''#''
        \<or> (\<exists>i. panelId = Some i \<and> anchorHref a = Some (''#'' @ i))
     then s' = s \<and> ev' = ev
     else ev' = cancel_event ev
        \<and> \<not> hasClass (visibleClass cfg) (targetClasses s')
        \<and> (\<exists>h. anchorHref a = Some h
              \<and> timers s' = timers (fst (hide cfg None s))
                   @ [(clock s + (delay cfg + 10), Redirect (anchorTarget a) h)]))"
  by (cases "anchorHref a")
     (auto simp: link_click_def valid_href_iff Let_def setTimeout_def)

theorem link_click_fires_iff_witness:
  "link_click navPanel_config (Some ''navPanel'')
     \<lparr>anchorHref = Some ''#navPanel'', anchorTarget = None\<rparr> (new_event None)
     (example_state [''is-navPanel-visible''])
   = (example_state [''is-navPanel-visible''], new_event None)
   \<and> snd (link_click navPanel_config (Some ''navPanel'')
       \<lparr>anchorHref = Some ''/about'', anchorTarget = None\<rparr> (new_event None)
       (example_state [''is-navPanel-visible'']))
     = cancel_event (new_event None)"
  using link_click_fires_iff [of navPanel_config "Some ''navPanel''"
      "\<lparr>anchorHref = Some ''#navPanel'', anchorTarget = None\<rparr>" "new_event None"
      "example_state [''is-navPanel-visible'']"]
    link_click_fires_iff [of navPanel_config "Some ''navPanel''"
      "\<lparr>anchorHref = Some ''/about'', anchorTarget = None\<rparr>" "new_event None"
      "example_state [''is-navPanel-visible'']"]
  by (auto simp: case_prod_beta Let_def prod_eq_iff)

text \<open>
  Claim C7. When an intercepted link of the panel is clicked, the panel is hidden at once
  and nothing has been navigated yet; the redirect is queued for \<open>delay + 10\<close>
  milliseconds after the click. With no other callback pending, the location is unchanged
  and no window is opened while less than \<open>delay + 10\<close> milliseconds have passed; from
  then on a window on the href has been opened when the anchor's target is
  \<^verbatim>\<open>_blank\<close>, and the location of the window is the href otherwise.
\<close>

theorem link_click_navigation:
  assumes "anchorHref a = Some h" and "isValidHrefForPanelClick (Some h) panelId"
  shows "(let s' = fst (link_click cfg panelId a ev s) in
          \<not> hasClass (visibleClass cfg) (targetClasses s')
          \<and> location s' = location s \<and> openedWindows s' = openedWindows s
          \<and> timers s' = timers (fst (hide cfg None s))
                @ [(clock s + (delay cfg + 10), Redirect (anchorTarget a) h)]
          \<and> (timers s = [] \<longrightarrow>
               (\<forall>dt. location (advance cfg dt s') =
                        (if dt < delay cfg + 10 \<or> anchorTarget a = Some ''_blank''
                         then location s else h)
                    \<and> openedWindows (advance cfg dt s') =
                        (if delay cfg + 10 \<le> dt \<and> anchorTarget a = Some ''_blank''
                         then openedWindows s @ [h] else openedWindows s))))"
proof -
  let ?s' = "fst (link_click cfg panelId a ev s)"
  have s': "?s' = setTimeout (Redirect (anchorTarget a) h) (delay cfg + 10) (fst (hide cfg None s))"
    using assms by (simp add: link_click_def Let_def)
  have c: "clock ?s' = clock s"
    by (simp add: s' setTimeout_def)
  have basic: "\<not> hasClass (visibleClass cfg) (targetClasses ?s')"
    "location ?s' = location s" "openedWindows ?s' = openedWindows s"
    "timers ?s' = timers (fst (hide cfg None s))
                @ [(clock s + (delay cfg + 10), Redirect (anchorTarget a) h)]"
    by (simp_all add: s' setTimeout_def)
  have adv: "location (advance cfg dt ?s') =
                        (if dt < delay cfg + 10 \<or> anchorTarget a = Some ''_blank''
                         then location s else h)
                    \<and> openedWindows (advance cfg dt ?s') =
                        (if delay cfg + 10 \<le> dt \<and> anchorTarget a = Some ''_blank''
                         then openedWindows s @ [h] else openedWindows s)"
    if e: "timers s = []" for dt
  proof (cases "hasClass (visibleClass cfg) (targetClasses s)")
    case True
    then have t: "timers ?s' = [(clock s + delay cfg, PostHide),
        (clock s + (delay cfg + 10), Redirect (anchorTarget a) h)]"
      by (simp add: basic(4) e hide_def Let_def setTimeout_def)
    show ?thesis
      by (simp add: advance_def Let_def t c basic post_hide_def case_prod_beta)
  next
    case False
    then have t: "timers ?s' = [(clock s + (delay cfg + 10), Redirect (anchorTarget a) h)]"
      by (simp add: basic(4) e hide_def Let_def setTimeout_def)
    show ?thesis
      by (simp add: advance_def Let_def t c basic)
  qed
  from basic adv show ?thesis by (simp add: Let_def)
qed

theorem link_click_navigation_witness:
  "(let s' = fst (link_click navPanel_config (Some ''navPanel'')
        \<lparr>anchorHref = Some ''/about'', anchorTarget = None\<rparr> (new_event None)
        (example_state [''is-navPanel-visible'']))
    in \<not> hasClass ''is-navPanel-visible'' (targetClasses s')
       \<and> location s' = ''/''
       \<and> location (advance navPanel_config 509 s') = ''/''
       \<and> location (advance navPanel_config 510 s') = ''/about'')"
proof -
  have v: "isValidHrefForPanelClick (Some ''/about'') (Some ''navPanel'')"
    by (simp add: isValidHrefForPanelClick_def)
  have e: "timers (example_state [''is-navPanel-visible'']) = []"
    "location (example_state [''is-navPanel-visible'']) = ''/''"
    by (simp_all add: example_state_def)
  have d: "delay navPanel_config = 500" "visibleClass navPanel_config = ''is-navPanel-visible''"
    by (simp_all add: navPanel_config_def)
  from link_click_navigation [of "\<lparr>anchorHref = Some ''/about'', anchorTarget = None\<rparr>"
      "''/about''" "Some ''navPanel''" navPanel_config "new_event None"
      "example_state [''is-navPanel-visible'']", OF _ v]
  show ?thesis by (simp add: Let_def e d)
qed

subsection \<open>The clean-up after hiding\<close>

lemma reset_each_fst:
  "fst (reset_each fs) =
     map (\<lambda>f. if resetCallable f then f\<lparr>fieldValues := fieldDefaults f\<rparr> else f) fs"
  by (induction fs) (simp_all add: form_reset_def case_prod_beta)

lemma post_hide_forms:
  "forms (post_hide cfg s) =
     (if resetForms cfg
      then map (\<lambda>f. if resetCallable f then f\<lparr>fieldValues := fieldDefaults f\<rparr> else f) (forms s)
      else forms s)"
  by (simp add: post_hide_def Let_def case_prod_beta reset_each_fst)

lemma run_action_forms:
  "forms (run_action cfg f t) = forms t \<or> forms (run_action cfg f t) =
     map (\<lambda>f. if resetCallable f then f\<lparr>fieldValues := fieldDefaults f\<rparr> else f) (forms t)"
  by (cases f) (simp_all add: post_hide_forms)

lemma reset_idem:
  "map (\<lambda>f. if resetCallable f then f\<lparr>fieldValues := fieldDefaults f\<rparr> else f)
     (map (\<lambda>f. if resetCallable f then f\<lparr>fieldValues := fieldDefaults f\<rparr> else f) fs)
   = map (\<lambda>f. if resetCallable f then f\<lparr>fieldValues := fieldDefaults f\<rparr> else f) fs"
  by (induction fs) simp_all

text \<open>Callbacks that run leave the forms as they are or as the clean-up leaves them.\<close>

lemma fold_forms_weak:
  "forms (fold (\<lambda>(d, f). run_action cfg f) as t) = forms t
   \<or> forms (fold (\<lambda>(d, f). run_action cfg f) as t) =
       map (\<lambda>f. if resetCallable f then f\<lparr>fieldValues := fieldDefaults f\<rparr> else f) (forms t)"
proof (induction as arbitrary: t)
  case Nil
  then show ?case by simp
next
  case (Cons x as)
  obtain d f where x: "x = (d, f)" by (cases x)
  from Cons.IH [of "run_action cfg f t"] run_action_forms [of cfg f t]
  show ?case by (auto simp: x reset_idem)
qed

lemma fold_forms_reset:
  assumes "resetForms cfg" and "(d0, PostHide) \<in> set as"
  shows "forms (fold (\<lambda>(d, f). run_action cfg f) as t) =
       map (\<lambda>f. if resetCallable f then f\<lparr>fieldValues := fieldDefaults f\<rparr> else f) (forms t)"
  using assms(2)
proof (induction as arbitrary: t)
  case Nil
  then show ?case by simp
next
  case (Cons x as)
  obtain d f where x: "x = (d, f)" by (cases x)
  show ?case
  proof (cases "(d0, PostHide) \<in> set as")
    case True
    from Cons.IH [OF True, of "run_action cfg f t"] run_action_forms [of cfg f t]
    show ?thesis by (auto simp: x reset_idem)
  next
    case False
    with Cons.prems x have f: "f = PostHide" by auto
    from fold_forms_weak [of cfg as "post_hide cfg t"] assms(1)
    show ?thesis by (auto simp: x f post_hide_forms reset_idem)
  qed
qed

text \<open>
  Claim C8. With \<^verbatim>\<open>resetForms\<close> set, once \<^verbatim>\<open>_hide\<close> has hidden a visible panel and
  \<open>delay\<close> milliseconds have passed, every form of the panel whose \<^verbatim>\<open>reset\<close> can
  be called holds its default values, whatever callbacks were pending; a form whose
  \<^verbatim>\<open>reset\<close> raises is left as it is and stops none of the forms after it.
\<close>

theorem post_hide_resets_every_form:
  assumes "resetForms cfg"
    and "hasClass (visibleClass cfg) (targetClasses s)"
    and "delay cfg \<le> dt"
  shows "forms (advance cfg dt (fst (hide cfg event s))) =
           map (\<lambda>f. if resetCallable f then f\<lparr>fieldValues := fieldDefaults f\<rparr> else f) (forms s)"
proof -
  let ?s1 = "fst (hide cfg event s)"
  let ?t = "clock ?s1 + dt"
  let ?due = "filter (\<lambda>(d, f). d \<le> ?t) (timers ?s1)"
  have "(clock s + delay cfg, PostHide) \<in> set (timers ?s1)"
    using assms(2) by (simp add: hide_def Let_def setTimeout_def)
  then have "(clock s + delay cfg, PostHide) \<in> set (sort_key fst ?due)"
    using assms(3) by simp
  from fold_forms_reset [OF assms(1) this]
  show ?thesis by (simp add: advance_def Let_def)
qed

theorem post_hide_resets_every_form_witness:
  "forms (advance navPanel_config 500
      (fst (hide navPanel_config None (example_state [''is-navPanel-visible''])))) =
     [\<lparr>fieldValues = [''a''], fieldDefaults = [''''], resetCallable = False\<rparr>,
      \<lparr>fieldValues = [''''], fieldDefaults = [''''], resetCallable = True\<rparr>]"
proof -
  have r: "resetForms navPanel_config"
    and d: "delay navPanel_config \<le> 500"
    by (simp_all add: navPanel_config_def)
  have v: "hasClass (visibleClass navPanel_config)
      (targetClasses (example_state [''is-navPanel-visible'']))"
    by (simp add: hasClass_def navPanel_config_def example_state_def)
  from post_hide_resets_every_form [OF r v d, of None]
  show ?thesis by (simp add: example_state_def)
qed

subsection \<open>Touch gestures\<close>

text \<open>The \<^verbatim>\<open>touchmove\<close> handler on tracked coordinates and an event with a touch point.\<close>

lemma on_touchmove_cases:
  assumes "touchPosX s = Num x0" and "touchPosY s = Num y0" and "first_touch ev = Some (x, y)"
  shows "on_touchmove cfg ev s =
     (if swipe_recognized cfg s (x, y)
      then (fst (hide cfg None (s\<lparr>touchPosX := Null, touchPosY := Null\<rparr>)), ev, True)
      else (s, if (scrollTop s < 0 \<and> y0 - y < 0)
                  \<or> (outerHeight s - 2 < scrollHeight s - scrollTop s
                      \<and> scrollHeight s - scrollTop s < outerHeight s + 2 \<and> y0 - y > 0)
               then cancel_event ev else ev, False))"
  using assms by (simp add: on_touchmove_def swipe_recognized_def Let_def del: first_touch.simps)

lemma panel_touch_start:
  "fst (panel_touch cfg (TouchStart (p # ps)) s) =
     s\<lparr>touchPosX := Num (fst p), touchPosY := Num (snd p)\<rparr>"
  by (simp add: on_touchstart_def new_event_def Let_def case_prod_beta)

lemma panel_touch_move:
  assumes "touchPosX s = Num x0" and "touchPosY s = Num y0"
  shows "fst (panel_touch cfg (TouchMove (p # ps)) s) =
     (if swipe_recognized cfg s p
      then fst (hide cfg None (s\<lparr>touchPosX := Null, touchPosY := Null\<rparr>))
      else s)"
  using on_touchmove_cases [OF assms, of "new_event (Some (p # ps))" "fst p" "snd p" cfg]
  by (simp add: new_event_def returned_def Let_def case_prod_beta)

lemma panel_touch_move_null:
  assumes "touchPosX s = Null"
  shows "fst (panel_touch cfg (TouchMove ts) s) = s"
  using assms by (simp add: on_touchmove_def returned_def Let_def)

lemma panel_touch_end: "fst (panel_touch cfg TouchEnd s) = s"
  by simp

text \<open>
  Claim C1, as amended. With \<^verbatim>\<open>side = 'right'\<close> and \<^verbatim>\<open>hideOnSwipe\<close>, the touch
  sequence that starts at (100,200) and moves to (30,210), with \<open>diffX = 70\<close> and
  \<open>diffY = -10\<close>, is not taken for a swipe: the classes of the target and the
  tracked coordinates stay as they are. The mirrored sequence, from (100,200) to
  (170,210) with \<open>diffX = -70\<close> and \<open>diffY = -10\<close>, is taken for a swipe: the
  panel is hidden and the tracked coordinates are \<^verbatim>\<open>null\<close>.
\<close>

theorem swipe_scenario_right:
  assumes "side cfg = Some ''right''" and "hideOnSwipe cfg"
  shows "(let s' = panel_touches cfg [TouchStart [(100, 200)], TouchMove [(30, 210)]] s
          in targetClasses s' = targetClasses s \<and> touchPosX s' = Num 100 \<and> touchPosY s' = Num 200)
       \<and> (let s' = panel_touches cfg [TouchStart [(100, 200)], TouchMove [(170, 210)]] s
          in \<not> hasClass (visibleClass cfg) (targetClasses s')
             \<and> touchPosX s' = Null \<and> touchPosY s' = Null)"
proof -
  let ?s1 = "s\<lparr>touchPosX := Num 100, touchPosY := Num 200\<rparr>"
  have s1: "fst (panel_touch cfg (TouchStart [(100, 200)]) s) = ?s1"
    using panel_touch_start [of cfg "(100, 200)" "[]" s] by simp
  have n: "\<not> swipe_recognized cfg ?s1 (30, 210)"
    using assms by (simp add: swipe_recognized_def evaluateSwipe_def)
  have y: "swipe_recognized cfg ?s1 (170, 210)"
    using assms by (simp add: swipe_recognized_def evaluateSwipe_def)
  have m1: "fst (panel_touch cfg (TouchMove [(30, 210)]) ?s1) = ?s1"
    using n by (subst panel_touch_move [of _ 100 200]) simp_all
  have m2: "fst (panel_touch cfg (TouchMove [(170, 210)]) ?s1) =
      fst (hide cfg None (?s1\<lparr>touchPosX := Null, touchPosY := Null\<rparr>))"
    using y by (subst panel_touch_move [of _ 100 200]) simp_all
  show ?thesis
    by (simp add: s1 m1 m2 Let_def del: panel_touch.simps)
qed

theorem swipe_scenario_right_witness:
  "touchPosX (panel_touches navPanel_config [TouchStart [(100, 200)], TouchMove [(30, 210)]]
       (example_state [''is-navPanel-visible''])) = Num 100
   \<and> touchPosX (panel_touches navPanel_config [TouchStart [(100, 200)], TouchMove [(170, 210)]]
       (example_state [''is-navPanel-visible''])) = Null
   \<and> \<not> hasClass ''is-navPanel-visible''
       (targetClasses (panel_touches navPanel_config
          [TouchStart [(100, 200)], TouchMove [(170, 210)]]
          (example_state [''is-navPanel-visible''])))"
proof -
  have c: "side navPanel_config = Some ''right''" "hideOnSwipe navPanel_config"
    and v: "visibleClass navPanel_config = ''is-navPanel-visible''"
    by (simp_all add: navPanel_config_def)
  from swipe_scenario_right [OF c, of "example_state [''is-navPanel-visible'']"]
  show ?thesis by (simp add: Let_def v del: panel_touches.simps)
qed

text \<open>
  The same touch sequence on the panel of the page: after the touch has moved
  from (100,200) to (30,210) the panel is still visible and the coordinates of the
  \<^verbatim>\<open>touchstart\<close> are still stored.
\<close>

theorem swipe_scenario_counterexample:
  "hasClass ''is-navPanel-visible''
     (targetClasses (panel_touches navPanel_config
        [TouchStart [(100, 200)], TouchMove [(30, 210)]]
        (example_state [''is-navPanel-visible''])))
   \<and> touchPosX (panel_touches navPanel_config
        [TouchStart [(100, 200)], TouchMove [(30, 210)]]
        (example_state [''is-navPanel-visible''])) = Num 100
   \<and> touchPosY (panel_touches navPanel_config
        [TouchStart [(100, 200)], TouchMove [(30, 210)]]
        (example_state [''is-navPanel-visible''])) = Num 200"
  by (simp add: navPanel_config_def example_state_def on_touchstart_def
      on_touchmove_def new_event_def evaluateSwipe_def hasClass_def returned_def Let_def)

text \<open>
  Claim C2, as amended. For \<^verbatim>\<open>side = 'right'\<close>, a horizontal difference
  \<open>diffX = start - current\<close> of -60px with a vertical difference of 5px is taken for
  a swipe, and the same horizontal difference with a vertical difference of 30px is not.
  That difference is a movement of the touch to the right: on tracked coordinates the
  swipe is recognized exactly when the touch has moved right by more than 50px while the
  vertical difference stays strictly between -20px and 20px.
\<close>

theorem swipe_right_direction:
  "evaluateSwipe (Some ''right'') (Fin (- 60)) (Fin 5)
   \<and> \<not> evaluateSwipe (Some ''right'') (Fin (- 60)) (Fin 30)
   \<and> (evaluateSwipe (Some ''right'') (js_minus (Num x0) x) (js_minus (Num y0) y)
        \<longleftrightarrow> (50 < x - x0 \<and> - 20 < y0 - y \<and> y0 - y < 20))"
  by (auto simp: evaluateSwipe_def Let_def)

theorem swipe_right_direction_witness:
  "evaluateSwipe (Some ''right'') (js_minus (Num 100) 160) (js_minus (Num 200) 195)
   \<and> \<not> evaluateSwipe (Some ''right'') (js_minus (Num 100) 40) (js_minus (Num 200) 195)"
  using swipe_right_direction [of 100 160 200 195] swipe_right_direction [of 100 40 200 195]
  by simp

text \<open>
  A movement of the touch to the left by 60px with a vertical drift of 5px, from (100,200)
  to (40,195): the difference \<open>diffX\<close> is 60, no swipe is recognized, and the panel of
  the page stays visible.
\<close>

theorem swipe_right_leftward_counterexample:
  "js_minus (Num 100) 40 = Fin 60 \<and> js_minus (Num 200) 195 = Fin 5
   \<and> \<not> evaluateSwipe (Some ''right'') (Fin 60) (Fin 5)
   \<and> hasClass ''is-navPanel-visible'' (targetClasses (panel_touches navPanel_config
         [TouchStart [(100, 200)], TouchMove [(40, 195)]]
         (example_state [''is-navPanel-visible''])))"
  by (simp add: navPanel_config_def example_state_def on_touchstart_def
      on_touchmove_def new_event_def evaluateSwipe_def hasClass_def returned_def Let_def)

text \<open>
  Claim C3, as amended. On tracked coordinates, when the \<^verbatim>\<open>touchmove\<close> handler
  recognizes no swipe it leaves the state as it is, and it cancels the event (default
  prevented, propagation stopped) exactly when \<^verbatim>\<open>scrollTop()\<close> is negative and the
  touch is below its start (\<open>diffY < 0\<close>), or the distance
  \<open>scrollHeight - scrollTop\<close> lies strictly within 2px of the outer height and the touch
  is above its start (\<open>diffY > 0\<close>). A panel at \<open>scrollTop = 0\<close> is not past its top.
\<close>

theorem overscroll_guard:
  assumes "touchPosX s = Num x0" and "touchPosY s = Num y0"
    and "first_touch ev = Some (x, y)"
    and "\<not> swipe_recognized cfg s (x, y)"
  shows "on_touchmove cfg ev s =
     (s, if (scrollTop s < 0 \<and> y0 - y < 0)
            \<or> (outerHeight s - 2 < scrollHeight s - scrollTop s
                \<and> scrollHeight s - scrollTop s < outerHeight s + 2 \<and> 0 < y0 - y)
         then cancel_event ev else ev, False)"
  using on_touchmove_cases [OF assms(1-3), of cfg] assms(4) by simp

theorem overscroll_guard_witness:
  "on_touchmove navPanel_config (new_event (Some [(100, 190)]))
     ((example_state [])\<lparr>touchPosX := Num 100, touchPosY := Num 200, scrollTop := 700\<rparr>)
   = ((example_state [])\<lparr>touchPosX := Num 100, touchPosY := Num 200, scrollTop := 700\<rparr>,
      cancel_event (new_event (Some [(100, 190)])), False)"
proof -
  let ?s = "(example_state [])\<lparr>touchPosX := Num 100, touchPosY := Num 200, scrollTop := 700\<rparr>"
  have a: "touchPosX ?s = Num 100" "touchPosY ?s = Num 200"
    "first_touch (new_event (Some [(100, 190)])) = Some (100, 190)"
    by (simp_all add: new_event_def)
  have n: "\<not> swipe_recognized navPanel_config ?s (100, 190)"
    by (simp add: swipe_recognized_def navPanel_config_def evaluateSwipe_def)
  from overscroll_guard [OF a n] show ?thesis
    by (simp add: example_state_def)
qed

text \<open>
  A panel that is scrolled to its top (\<open>scrollTop = 0\<close>, content of 1000px in a box of
  300px): a touch that moves 10px down from its start and a touch that moves 10px up from
  its start are both left alone, the event is not cancelled.
\<close>

theorem overscroll_guard_top_counterexample:
  "scrollTop ((example_state [])\<lparr>touchPosX := Num 100, touchPosY := Num 200\<rparr>) = 0
   \<and> on_touchmove navPanel_config (new_event (Some [(100, 210)]))
       ((example_state [])\<lparr>touchPosX := Num 100, touchPosY := Num 200\<rparr>)
     = ((example_state [])\<lparr>touchPosX := Num 100, touchPosY := Num 200\<rparr>,
        new_event (Some [(100, 210)]), False)
   \<and> on_touchmove navPanel_config (new_event (Some [(100, 190)]))
       ((example_state [])\<lparr>touchPosX := Num 100, touchPosY := Num 200\<rparr>)
     = ((example_state [])\<lparr>touchPosX := Num 100, touchPosY := Num 200\<rparr>,
        new_event (Some [(100, 190)]), False)"
  by (simp add: on_touchmove_def navPanel_config_def example_state_def new_event_def
      evaluateSwipe_def Let_def)

text \<open>Once the coordinates are \<^verbatim>\<open>null\<close>, the rest of a gesture changes nothing.\<close>

lemma moves_null:
  assumes "touchPosX s = Null"
  shows "panel_touches cfg (map (\<lambda>p. TouchMove [p]) ps @ [TouchEnd]) s = s"
  using assms
  by (induction ps) (simp_all add: panel_touch_move_null panel_touch_end del: panel_touch.simps)

lemma moves_tracked:
  assumes "touchPosX s = Num x" and "touchPosY s = Num y"
  shows "(let s' = panel_touches cfg (map (\<lambda>p. TouchMove [p]) ps @ [TouchEnd]) s
          in (touchPosX s', touchPosY s') =
             (if \<exists>p \<in> set ps. swipe_recognized cfg s p then (Null, Null) else (Num x, Num y)))"
proof (induction ps)
  case Nil
  from assms show ?case by simp
next
  case (Cons p ps)
  show ?case
  proof (cases "swipe_recognized cfg s p")
    case True
    let ?h = "fst (hide cfg None (s\<lparr>touchPosX := Null, touchPosY := Null\<rparr>))"
    have "fst (panel_touch cfg (TouchMove [p]) s) = ?h"
      using panel_touch_move [OF assms, of cfg p "[]"] True by simp
    moreover have "touchPosX ?h = Null" "touchPosY ?h = Null" by simp_all
    ultimately show ?thesis
      using True by (simp add: moves_null Let_def del: panel_touch.simps)
  next
    case False
    have "fst (panel_touch cfg (TouchMove [p]) s) = s"
      using panel_touch_move [OF assms, of cfg p "[]"] False by simp
    with Cons.IH False show ?thesis
      by (simp add: Let_def del: panel_touch.simps)
  qed
qed

text \<open>
  Claim C4, as amended. The stored coordinates are set to \<^verbatim>\<open>null\<close> only by a
  \<^verbatim>\<open>touchmove\<close> that recognizes a swipe. After a gesture (a \<^verbatim>\<open>touchstart\<close> at
  \<open>(x, y)\<close>, any number of \<^verbatim>\<open>touchmove\<close>s, a \<^verbatim>\<open>touchend\<close>) they are
  \<^verbatim>\<open>null\<close> when one of the moves was recognized as a swipe, and they are still the
  coordinates of the \<^verbatim>\<open>touchstart\<close> otherwise; a \<^verbatim>\<open>touchend\<close> changes nothing.
\<close>

theorem gesture_touch_state:
  "(let s' = panel_touches cfg (TouchStart [(x, y)] # map (\<lambda>p. TouchMove [p]) ps @ [TouchEnd]) s
    in (touchPosX s', touchPosY s') =
       (if \<exists>p \<in> set ps. swipe_recognized cfg (s\<lparr>touchPosX := Num x, touchPosY := Num y\<rparr>) p
        then (Null, Null) else (Num x, Num y)))
   \<and> fst (panel_touch cfg TouchEnd s) = s"
proof -
  let ?s1 = "s\<lparr>touchPosX := Num x, touchPosY := Num y\<rparr>"
  have s1: "fst (panel_touch cfg (TouchStart [(x, y)]) s) = ?s1"
    using panel_touch_start [of cfg "(x, y)" "[]" s] by simp
  from moves_tracked [of ?s1 x y cfg ps] show ?thesis
    by (simp add: s1 panel_touch_end Let_def del: panel_touch.simps)
qed

theorem gesture_touch_state_witness:
  "touchPosX (panel_touches navPanel_config
      [TouchStart [(100, 200)], TouchMove [(120, 205)], TouchMove [(170, 210)], TouchEnd]
      (example_state [''is-navPanel-visible''])) = Null
   \<and> touchPosY (panel_touches navPanel_config
      [TouchStart [(100, 200)], TouchMove [(120, 205)], TouchMove [(170, 210)], TouchEnd]
      (example_state [''is-navPanel-visible''])) = Null"
proof -
  have r: "swipe_recognized navPanel_config
      ((example_state [''is-navPanel-visible''])\<lparr>touchPosX := Num 100, touchPosY := Num 200\<rparr>)
      (170, 210)"
    by (simp add: swipe_recognized_def navPanel_config_def evaluateSwipe_def)
  from gesture_touch_state [of navPanel_config 100 200 "[(120, 205), (170, 210)]"
      "example_state [''is-navPanel-visible'']"] r
  show ?thesis by (simp add: Let_def del: panel_touch.simps panel_touches.simps)
qed

text \<open>
  A gesture on the panel of the page that ends without a swipe: the touch starts at
  (100,200), moves to (110,205) and ends. The stored coordinates are not \<^verbatim>\<open>null\<close>.
\<close>

theorem gesture_touch_state_counterexample:
  "touchPosX (panel_touches navPanel_config
      [TouchStart [(100, 200)], TouchMove [(110, 205)], TouchEnd]
      (example_state [''is-navPanel-visible''])) = Num 100
   \<and> touchPosY (panel_touches navPanel_config
      [TouchStart [(100, 200)], TouchMove [(110, 205)], TouchEnd]
      (example_state [''is-navPanel-visible''])) = Num 200"
  by (simp add: navPanel_config_def example_state_def on_touchstart_def
      on_touchmove_def new_event_def evaluateSwipe_def returned_def Let_def)

lemma evaluateSwipe_NaN: "\<not> evaluateSwipe sd dx NaN"
  by (simp add: evaluateSwipe_def Let_def)

text \<open>
  Claim C10. When both stored coordinates are \<^verbatim>\<open>undefined\<close>, the \<^verbatim>\<open>touchmove\<close>
  handler recognizes no swipe for any touch point, does not return \<^verbatim>\<open>false\<close> and
  leaves the event as it is (nothing is prevented or stopped by it); the state is
  unchanged, but for the warning logged when the event has no first touch point.
\<close>

theorem touchmove_before_touchstart:
  assumes "touchPosX s = Undefined" and "touchPosY s = Undefined"
  shows "on_touchmove cfg ev s =
     (if first_touch ev = None
      then s\<lparr>console := console s @ [''panel: touchmove handler error'']\<rparr> else s, ev, False)
     \<and> \<not> swipe_recognized cfg s p"
  using assms
  by (cases "first_touch ev")
     (simp_all add: on_touchmove_def swipe_recognized_def evaluateSwipe_NaN Let_def case_prod_beta
        del: first_touch.simps)

theorem touchmove_before_touchstart_witness:
  "on_touchmove navPanel_config (new_event (Some [(30, 210)]))
     (example_state [''is-navPanel-visible''])
   = (example_state [''is-navPanel-visible''], new_event (Some [(30, 210)]), False)"
proof -
  have u: "touchPosX (example_state [''is-navPanel-visible'']) = Undefined"
    "touchPosY (example_state [''is-navPanel-visible'']) = Undefined"
    by (simp_all add: example_state_def)
  from touchmove_before_touchstart [OF u, of navPanel_config "new_event (Some [(30, 210)])"]
  show ?thesis by (simp add: new_event_def)
qed

subsection \<open>Clicks on the anchors that name the panel\<close>

lemma hasClass_toggleClass: "hasClass c (toggleClass c cs) = (\<not> hasClass c cs)"
  by (auto simp: toggleClass_def addClass_def hasClass_def removeClass_def)

lemma set_toggleClass_twice: "set (toggleClass c (toggleClass c cs)) = set cs"
  by (auto simp: toggleClass_def addClass_def hasClass_def removeClass_def)

text \<open>For an id that needs no escaping the three handlers are bound, whatever the engine.\<close>

lemma panel_bindings_safe:
  assumes "i \<noteq> []" and "selector_safe i"
  shows "panel_bindings engine (Some i) =
     \<lparr>selfAnchorBound = Some (\<lambda>a. anchorHref a = Some (''#'' @ i)), bodyClickBound = True,
      bodyToggleBound = Some (\<lambda>a. anchorHref a = Some (''#'' @ i))\<rparr>"
  using assms by (simp add: panel_bindings_def self_selector_def)

lemma click_outside_self:
  assumes "i \<noteq> []" and "selector_safe i" and "anchorHref a = Some (''#'' @ i)"
  shows "click_anchor cfg engine (Some i) OutsidePanel a s =
           (s\<lparr>targetClasses := toggleClass (visibleClass cfg) (targetClasses s)\<rparr>,
            cancel_event (new_event None))"
  using assms(3)
  by (simp add: click_anchor_def panel_bindings_safe [OF assms(1,2)] body_handlers_def
      delegate_matches_def body_toggle_click_def cancel_event_def)

lemma click_inside_self:
  assumes "i \<noteq> []" and "selector_safe i" and "anchorHref a = Some (''#'' @ i)"
  shows "\<not> hasClass (visibleClass cfg)
           (targetClasses (fst (click_anchor cfg engine (Some i) InsidePanel a s)))"
proof -
  have nv: "\<not> isValidHrefForPanelClick (anchorHref a) (Some i)"
    using assms(3) by (simp add: valid_href_iff)
  then have l: "link_click cfg (Some i) a ev s = (s, ev)" for ev
    by (cases "anchorHref a") (simp_all add: link_click_def)
  show ?thesis
    using assms(3)
    by (simp add: click_anchor_def panel_bindings_safe [OF assms(1,2)] panel_handlers_def l
        delegate_matches_def self_anchor_click_def cancel_event_def Let_def)
qed

text \<open>
  An id whose selector the library rejects, such as one with a double quote in it: the
  toggle handler and the click handler of the body are not bound, and a click on an
  anchor outside the panel changes nothing.
\<close>

lemma click_outside_rejected:
  assumes "i \<noteq> []" and "\<not> selector_safe i" and "engine i = None"
  shows "click_anchor cfg engine (Some i) OutsidePanel a s = (s, new_event None)"
  using assms
  by (simp add: click_anchor_def panel_bindings_def self_selector_def body_handlers_def
      delegate_matches_def new_event_def)

lemma quote_not_selector_safe: "\<not> selector_safe (''n'' @ [CHR 0x22] @ ''p'')"
  by (simp add: selector_safe_def)

text \<open>
  Claim C9, as amended. For a panel whose id is not empty and holds no double quote, no
  backslash and no control character, a click on an anchor outside the panel element
  whose href is \<^verbatim>\<open>#\<close> followed by the id flips the visible class on the target, and
  two such clicks in a row restore the visibility, the set of class tokens and the rest of
  the state, whether the panel was open or closed. A click on an anchor with that href
  inside the panel element removes the visible class: it closes the panel and never opens
  it.
\<close>

theorem toggle_click_involution:
  assumes "panelId = Some i" and "i \<noteq> []" and "selector_safe i"
    and "anchorHref a = Some (''#'' @ i)"
  shows "(let s1 = fst (click_anchor cfg engine panelId OutsidePanel a s);
              s2 = fst (click_anchor cfg engine panelId OutsidePanel a s1)
          in hasClass (visibleClass cfg) (targetClasses s1)
               = (\<not> hasClass (visibleClass cfg) (targetClasses s))
             \<and> hasClass (visibleClass cfg) (targetClasses s2)
               = hasClass (visibleClass cfg) (targetClasses s)
             \<and> set (targetClasses s2) = set (targetClasses s)
             \<and> s2 = s\<lparr>targetClasses := targetClasses s2\<rparr>)
       \<and> \<not> hasClass (visibleClass cfg)
             (targetClasses (fst (click_anchor cfg engine panelId InsidePanel a s)))"
  using click_inside_self [OF assms(2-4), of cfg engine s]
  by (simp add: assms(1) click_outside_self [OF assms(2-4)] hasClass_toggleClass
      set_toggleClass_twice Let_def)

theorem toggle_click_involution_witness:
  "hasClass ''is-navPanel-visible''
     (targetClasses (fst (click_anchor navPanel_config (\<lambda>i. None) (Some ''navPanel'')
        OutsidePanel \<lparr>anchorHref = Some ''#navPanel'', anchorTarget = None\<rparr>
        (example_state []))))
   \<and> \<not> hasClass ''is-navPanel-visible''
     (targetClasses (fst (click_anchor navPanel_config (\<lambda>i. None) (Some ''navPanel'')
        OutsidePanel \<lparr>anchorHref = Some ''#navPanel'', anchorTarget = None\<rparr>
        (fst (click_anchor navPanel_config (\<lambda>i. None) (Some ''navPanel'') OutsidePanel
           \<lparr>anchorHref = Some ''#navPanel'', anchorTarget = None\<rparr> (example_state []))))))"
proof -
  have h: "\<not> hasClass (visibleClass navPanel_config) (targetClasses (example_state []))"
    "visibleClass navPanel_config = ''is-navPanel-visible''"
    by (simp_all add: hasClass_def navPanel_config_def example_state_def)
  have safe: "selector_safe ''navPanel''"
    by (simp add: selector_safe_def)
  from toggle_click_involution [of "Some ''navPanel''" "''navPanel''"
      "\<lparr>anchorHref = Some ''#navPanel'', anchorTarget = None\<rparr>" navPanel_config
      "\<lambda>i. None" "example_state []", OF _ _ safe] h
  show ?thesis by (simp add: Let_def)
qed

text \<open>
  The close anchor \<^verbatim>\<open><a href="#navPanel" class="close">\<close> that \<^verbatim>\<open>createNavPanel\<close>
  puts inside the panel: a click on it while the panel is closed leaves it closed, and two
  clicks on it from the open panel leave it closed. The id needs no escaping, so the
  engine is never asked.
\<close>

theorem toggle_click_inside_counterexample:
  "\<not> hasClass ''is-navPanel-visible'' (targetClasses (example_state []))
   \<and> \<not> hasClass ''is-navPanel-visible'' (targetClasses (fst
        (click_anchor navPanel_config (\<lambda>i. None) (Some ''navPanel'') InsidePanel
           \<lparr>anchorHref = Some ''#navPanel'', anchorTarget = None\<rparr> (example_state []))))
   \<and> hasClass ''is-navPanel-visible'' (targetClasses (example_state [''is-navPanel-visible'']))
   \<and> \<not> hasClass ''is-navPanel-visible'' (targetClasses (fst
        (click_anchor navPanel_config (\<lambda>i. None) (Some ''navPanel'') InsidePanel
           \<lparr>anchorHref = Some ''#navPanel'', anchorTarget = None\<rparr>
           (fst (click_anchor navPanel_config (\<lambda>i. None) (Some ''navPanel'') InsidePanel
              \<lparr>anchorHref = Some ''#navPanel'', anchorTarget = None\<rparr>
              (example_state [''is-navPanel-visible'']))))))"
  by (simp add: click_anchor_def panel_bindings_def self_selector_def selector_safe_def
      panel_handlers_def link_click_def isValidHrefForPanelClick_def delegate_matches_def
      self_anchor_click_def cancel_event_def new_event_def navPanel_config_def
      example_state_def hasClass_def removeClass_def Let_def)

end
